theory Spec2Isabelle
  imports Complex_Main
begin

section \<open>Laundry point-of-sale: a shallow embedding of the order, ledger, auth,
  reporting and backup logic\<close>

text \<open>
  Conventions of the embedding.
  \<^item> A Python \<open>datetime\<close> (UTC, microsecond resolution) is an \<open>int\<close>: the number of
    microseconds since 1970-01-01T00:00:00. A \<open>date\<close> is an \<open>int\<close>: the number of days
    since 1970-01-01. \<open>timedelta(days=n)\<close> is \<open>n * 86400000000\<close>.
  \<^item> Money amounts (\<open>Decimal\<close>, \<open>Numeric(10, 2)\<close> columns, the POS form's discount) are
    exact rationals; the arithmetic \<open>+\<close>, \<open>-\<close>, \<open>*\<close>, \<open>/ 100\<close> of the source is the
    arithmetic of \<open>rat\<close>. The difference between Python's \<open>Decimal\<close>, \<open>float\<close> and \<open>int\<close>
    and the rounding of a column to its scale are not modelled.
  \<^item> The database is a collaborator: a flush or commit succeeds or raises as the
    environment of the call says, and the model does not decide it from the schema.
  \<^item> Model classes are records; fields carry a short table prefix because several tables
    have columns of the same name (\<open>id\<close>, \<open>created_at\<close>, ...).
\<close>

type_synonym datetime = int
type_synonym date = int

definition timedelta_days :: "int \<Rightarrow> int" where
  "timedelta_days n = n * 86400000000"

definition timedelta_hours :: "int \<Rightarrow> int" where
  "timedelta_hours n = n * 3600000000"

definition timedelta_minutes :: "int \<Rightarrow> int" where
  "timedelta_minutes n = n * 60000000"

definition date_of :: "datetime \<Rightarrow> date" where
  \<comment> \<open>\<open>dt.date()\<close> and SQL \<open>func.date(column)\<close>\<close>
  "date_of t = t div 86400000000"

definition weekday :: "date \<Rightarrow> int" where
  \<comment> \<open>\<open>date.weekday()\<close>: Monday is 0, Sunday is 6; 1970-01-01 was a Thursday (3)\<close>
  "weekday d = (d + 3) mod 7"


subsection \<open>models.py: User\<close>

record user =
  u_id :: int
  username :: string
  role :: string
  is_active :: bool

definition User_has_permission :: "user \<Rightarrow> string \<Rightarrow> bool" where
  \<comment> \<open>\<open>User.has_permission\<close>: the admin branch returns True, and so does the fall-through\<close>
  "User_has_permission self permission =
     (if role self = ''admin'' then True else True)"


subsection \<open>auth.py: the permission decorator\<close>

text \<open>
  \<open>current_user\<close> is \<open>None\<close> when \<open>current_user.is_authenticated\<close> is false (Flask-Login's
  anonymous user) and \<open>Some u\<close> for the authenticated user \<open>u\<close>. The decorated view
  either answers 401, answers 403, or runs the wrapped function.
\<close>

datatype 'a guarded = Status401 string | Status403 string | Ran 'a

definition has_permission :: "string \<Rightarrow> user option \<Rightarrow> 'a \<Rightarrow> 'a guarded" where
  "has_permission permission current_user f =
     (case current_user of
        None \<Rightarrow> Status401 ''Authentication required''
      | Some u \<Rightarrow>
          if \<not> User_has_permission u permission
          then Status403 ''Insufficient permissions''
          else Ran f)"


subsection \<open>models.py: catalog, settings, orders, ledger\<close>

record product =
  p_id :: int
  p_price :: rat

record settings =
  st_tax_rate :: rat

text \<open>
  An order number \<open>f"ORD-{date_str}-{today_count:04d}"\<close> is kept as its two components,
  the day and the per-day counter, instead of the formatted string.
\<close>

datatype order_no = ORD date nat

record order =
  o_id :: int
  o_order_number :: order_no
  o_user_id :: int
  o_customer_id :: "int option"
  o_total_amount :: "rat option"
  o_tax_amount :: rat
  o_discount_amount :: rat
  o_payment_method :: "string option"
  o_status :: string
  o_created_at :: datetime
  o_updated_at :: datetime
  o_completed_at :: "datetime option"

record order_item =
  oi_order_id :: int
  oi_product_id :: int
  oi_quantity :: int
  oi_unit_price :: rat
  oi_total_price :: rat

record transaction =
  t_type :: string
  t_category :: string
  t_amount :: rat
  t_reference_type :: string
  t_reference_id :: "int option"
  t_payment_method :: "string option"
  t_created_by :: int
  t_created_at :: datetime


subsection \<open>The store and the SQLAlchemy session\<close>

text \<open>
  The store holds the tables the order engine touches, each as the list of its rows in
  insertion order. A session has the committed store, which every other reader sees, and
  its own working copy with the rows added or flushed but not yet committed.
  \<open>db.session.commit()\<close> publishes the working copy, \<open>db.session.rollback()\<close> discards
  it. Whether the store accepts a flush or a commit is the store's decision: the
  environment of a request carries the outcome of each, together with the clock.
\<close>

record store =
  products :: "product list"
  settings_rows :: "settings list"
  orders :: "order list"
  order_items :: "order_item list"
  transactions :: "transaction list"

record db_session =
  committed :: store
  working :: store

datatype db_error = IntegrityError | OperationalError

record env =
  utcnow :: datetime
  flush_result :: "db_error option"
  commit_result :: "db_error option"

definition new_session :: "store \<Rightarrow> db_session" where
  \<comment> \<open>the fresh session of a request\<close>
  "new_session st = \<lparr>committed = st, working = st\<rparr>"

definition rollback :: "db_session \<Rightarrow> db_session" where
  "rollback s = s\<lparr>working := committed s\<rparr>"

definition commit :: "db_session \<Rightarrow> db_session" where
  "commit s = s\<lparr>committed := working s\<rparr>"

definition add_order :: "order \<Rightarrow> store \<Rightarrow> store" where
  "add_order ord w = w\<lparr>orders := orders w @ [ord]\<rparr>"

definition add_order_item :: "order_item \<Rightarrow> store \<Rightarrow> store" where
  "add_order_item it w = w\<lparr>order_items := order_items w @ [it]\<rparr>"

definition add_transaction :: "transaction \<Rightarrow> store \<Rightarrow> store" where
  "add_transaction t w = w\<lparr>transactions := transactions w @ [t]\<rparr>"

definition update_order :: "order \<Rightarrow> store \<Rightarrow> store" where
  \<comment> \<open>attribute assignments on a persistent \<open>Order\<close> object: the row with its id changes\<close>
  "update_order ord w =
     w\<lparr>orders := map (\<lambda>x. if o_id x = o_id ord then ord else x) (orders w)\<rparr>"

definition next_order_id :: "store \<Rightarrow> int" where
  \<comment> \<open>the integer primary key the store assigns at flush: one more than the largest\<close>
  "next_order_id w = foldr max (map o_id (orders w)) 0 + 1"

definition Product_query_get :: "store \<Rightarrow> int \<Rightarrow> product option" where
  "Product_query_get w pid = find (\<lambda>p. p_id p = pid) (products w)"

definition Settings_query_first :: "store \<Rightarrow> settings option" where
  "Settings_query_first w = (case settings_rows w of [] \<Rightarrow> None | s # _ \<Rightarrow> Some s)"

definition order_items_of :: "store \<Rightarrow> int \<Rightarrow> order_item list" where
  \<comment> \<open>the relationship \<open>Order.items\<close>\<close>
  "order_items_of w oid = filter (\<lambda>i. oi_order_id i = oid) (order_items w)"


subsection \<open>utils.py: generate\_order\_number\<close>

definition generate_order_number :: "datetime \<Rightarrow> store \<Rightarrow> order_no" where
  "generate_order_number today w =
     (let today_count =
            length (filter (\<lambda>ord. date_of (o_created_at ord) = date_of today) (orders w)) + 1
      in ORD (date_of today) today_count)"


subsection \<open>api\_routes.py: create\_order\<close>

text \<open>
  The JSON body of \<open>POST /orders\<close>: every key may be absent. \<open>order_schema.load\<close>
  rejects a body without \<open>payment_method\<close> and an item without \<open>product_id\<close>,
  \<open>quantity\<close> or \<open>unit_price\<close> (the fields declared \<open>required=True\<close>); the loaded data
  keeps \<open>unit_price\<close> optional because the view reads it with
  \<open>item_data.get('unit_price', product.price)\<close>.
\<close>

record item_json =
  ij_product_id :: "int option"
  ij_quantity :: "int option"
  ij_unit_price :: "rat option"

record order_json =
  oj_items :: "item_json list option"
  oj_customer_id :: "int option"
  oj_discount_amount :: "rat option"
  oj_payment_method :: "string option"

record item_data =
  it_product_id :: int
  it_quantity :: int
  it_unit_price :: "rat option"

record order_data =
  d_items :: "item_data list option"
  d_customer_id :: "int option"
  d_discount_amount :: "rat option"
  d_payment_method :: string

definition item_schema_load :: "item_json \<Rightarrow> item_data option" where
  "item_schema_load j =
     (case (ij_product_id j, ij_quantity j, ij_unit_price j) of
        (Some p, Some q, Some u) \<Rightarrow>
          Some \<lparr>it_product_id = p, it_quantity = q, it_unit_price = Some u\<rparr>
      | _ \<Rightarrow> None)"

fun load_all :: "item_json list \<Rightarrow> item_data list option" where
  "load_all [] = Some []"
| "load_all (j # js) =
     (case item_schema_load j of
        None \<Rightarrow> None
      | Some d \<Rightarrow> (case load_all js of None \<Rightarrow> None | Some ds \<Rightarrow> Some (d # ds)))"

definition order_schema_load :: "order_json \<Rightarrow> order_data option" where
  \<comment> \<open>\<open>None\<close> is marshmallow's \<open>ValidationError\<close>\<close>
  "order_schema_load j =
     (case oj_payment_method j of
        None \<Rightarrow> None
      | Some pm \<Rightarrow>
          (case oj_items j of
             None \<Rightarrow>
               Some \<lparr>d_items = None, d_customer_id = oj_customer_id j,
                     d_discount_amount = oj_discount_amount j, d_payment_method = pm\<rparr>
           | Some js \<Rightarrow>
               (case load_all js of
                  None \<Rightarrow> None
                | Some ds \<Rightarrow>
                    Some \<lparr>d_items = Some ds, d_customer_id = oj_customer_id j,
                          d_discount_amount = oj_discount_amount j, d_payment_method = pm\<rparr>)))"

datatype api_body =
    ErrorMsg string
  | ProductNotFound int
  | ValidationErrors
  | OrderDump order "order_item list"

type_synonym api_response = "nat \<times> api_body"

definition order_transaction :: "order \<Rightarrow> rat \<Rightarrow> string option \<Rightarrow> int \<Rightarrow> datetime \<Rightarrow> transaction" where
  \<comment> \<open>the \<open>Transaction(type='income', category='sales', ...)\<close> both views build\<close>
  "order_transaction ord amount pm uid now =
     \<lparr>t_type = ''income'', t_category = ''sales'', t_amount = amount,
      t_reference_type = ''order'', t_reference_id = Some (o_id ord),
      t_payment_method = pm, t_created_by = uid, t_created_at = now\<rparr>"

text \<open>
  The loop over \<open>data['items']\<close>. It stops at the first product that does not exist and
  hands back that product id with the working copy as it is at that point; otherwise it
  returns the working copy with every item added, and the running total.
\<close>

fun create_order_items ::
  "int \<Rightarrow> item_data list \<Rightarrow> store \<Rightarrow> rat \<Rightarrow> (int \<times> store) + (store \<times> rat)" where
  "create_order_items oid [] w total_amount = Inr (w, total_amount)"
| "create_order_items oid (item_data # rest) w total_amount =
     (case Product_query_get w (it_product_id item_data) of
        None \<Rightarrow> Inl (it_product_id item_data, w)
      | Some product \<Rightarrow>
          (let unit_price = (case it_unit_price item_data of
                               None \<Rightarrow> p_price product | Some u \<Rightarrow> u);
               total_price = unit_price * of_int (it_quantity item_data);
               order_item = \<lparr>oi_order_id = oid, oi_product_id = p_id product,
                              oi_quantity = it_quantity item_data,
                              oi_unit_price = unit_price, oi_total_price = total_price\<rparr>
           in create_order_items oid rest (add_order_item order_item w)
                (total_amount + total_price)))"

text \<open>
  The body of the \<open>try\<close> block. A failed flush or commit is an exception: the handler
  rolls back and answers 500. The missing-product branch returns from inside the
  \<open>try\<close> without raising, so the handler does not run.
\<close>

definition create_order_try ::
  "env \<Rightarrow> db_session \<Rightarrow> user \<Rightarrow> order_data \<Rightarrow> item_data list \<Rightarrow> api_response \<times> db_session" where
  "create_order_try e s current_user data its =
     (let ord = \<lparr>o_id = next_order_id (working s),
                  o_order_number = generate_order_number (utcnow e) (working s),
                  o_user_id = u_id current_user,
                  o_customer_id = d_customer_id data,
                  o_total_amount = None,
                  o_tax_amount = 0,
                  o_discount_amount =
                    (case d_discount_amount data of None \<Rightarrow> 0 | Some d \<Rightarrow> d),
                  o_payment_method = Some (d_payment_method data),
                  o_status = ''pending'',
                  o_created_at = utcnow e,
                  o_updated_at = utcnow e,
                  o_completed_at = None\<rparr>
      in case flush_result e of
           Some err \<Rightarrow> ((500, ErrorMsg ''Failed to create order''), rollback s)
         | None \<Rightarrow>
             (let s1 = s\<lparr>working := add_order ord (working s)\<rparr>
              in case create_order_items (o_id ord) its (working s1) 0 of
                   Inl (pid, w) \<Rightarrow> ((400, ProductNotFound pid), s1\<lparr>working := w\<rparr>)
                 | Inr (w, total_amount) \<Rightarrow>
                     (let total_amount = total_amount - o_discount_amount ord;
                          tax_amount = 0;
                          ord2 = ord\<lparr>o_tax_amount := tax_amount,
                                     o_total_amount := Some (total_amount + tax_amount)\<rparr>;
                          w2 = update_order ord2 w;
                          txn = order_transaction ord2 (total_amount + tax_amount)
                                  (o_payment_method ord2) (u_id current_user) (utcnow e);
                          s3 = s1\<lparr>working := add_transaction txn w2\<rparr>
                      in case commit_result e of
                           Some err \<Rightarrow>
                             ((500, ErrorMsg ''Failed to create order''), rollback s3)
                         | None \<Rightarrow>
                             ((201, OrderDump ord2 (order_items_of (working s3) (o_id ord2))),
                              commit s3))))"

definition create_order :: "env \<Rightarrow> store \<Rightarrow> user \<Rightarrow> order_json \<Rightarrow> api_response \<times> db_session" where
  "create_order e st current_user json =
     (case order_schema_load json of
        None \<Rightarrow> ((400, ValidationErrors), new_session st)
      | Some data \<Rightarrow>
          (case d_items data of
             None \<Rightarrow>
               ((400, ErrorMsg ''Order must contain at least one item''), new_session st)
           | Some [] \<Rightarrow>
               ((400, ErrorMsg ''Order must contain at least one item''), new_session st)
           | Some (i # its) \<Rightarrow>
               create_order_try e (new_session st) current_user data (i # its)))"


subsection \<open>pos\_routes.py: new\_order\<close>

text \<open>
  The POS form arrives as strings. A field that the view parses is \<open>Absent\<close> (missing,
  or the empty string of a \<open>product_id[]\<close> entry), \<open>Malformed\<close> (the parse raises
  \<open>ValueError\<close>) or \<open>Given\<close> with its value. An entry of \<open>quantity[]\<close> is \<open>None\<close> when
  \<open>int(...)\<close> raises on it. Every exception inside the \<open>try\<close> block reaches the one
  handler, which rolls back.
\<close>

datatype 'a field = Absent | Malformed | Given 'a

datatype py_exn =
  ValueError | IndexError | AttributeError | KeyError | CSRFError | DBError db_error

record order_form =
  csrf_valid :: bool
  f_customer_id :: "int option"
  f_payment_method :: "string option"
  f_discount_amount :: "rat field"
  f_product_ids :: "int field list"
  f_quantities :: "int option list"

record cart_item =
  ci_product :: product
  ci_quantity :: int
  ci_unit_price :: rat
  ci_total_price :: rat

datatype flash = FlashOrderCreated order_no | FlashText string

type_synonym pos_response = "flash \<times> string \<times> string"

text \<open>
  The first loop, \<open>for i, product_id in enumerate(product_ids)\<close>: \<open>i\<close> counts every
  entry, also the skipped empty ones.
\<close>

fun new_order_cart ::
  "store \<Rightarrow> nat \<Rightarrow> int field list \<Rightarrow> int option list \<Rightarrow> cart_item list \<Rightarrow> rat
     \<Rightarrow> py_exn + (cart_item list \<times> rat)" where
  "new_order_cart w i [] quantities cart total_amount =
     Inr (cart, total_amount)"
| "new_order_cart w i (Absent # rest) quantities cart total_amount =
     new_order_cart w (Suc i) rest quantities cart total_amount"
| "new_order_cart w i (Malformed # rest) quantities cart total_amount =
     Inl ValueError"
| "new_order_cart w i (Given pid # rest) quantities cart total_amount =
     (let product = Product_query_get w pid
      in if length quantities \<le> i then Inl IndexError
         else case quantities ! i of
                None \<Rightarrow> Inl ValueError
              | Some quantity \<Rightarrow>
                  (case product of
                     None \<Rightarrow> Inl AttributeError
                   | Some p \<Rightarrow>
                       (let unit_price = p_price p;
                            total_price = unit_price * of_int quantity
                        in new_order_cart w (Suc i) rest quantities
                             (cart @
                                [\<lparr>ci_product = p, ci_quantity = quantity,
                                  ci_unit_price = unit_price, ci_total_price = total_price\<rparr>])
                             (total_amount + total_price))))"

definition cart_row :: "int \<Rightarrow> cart_item \<Rightarrow> order_item" where
  \<comment> \<open>the \<open>OrderItem(...)\<close> of the second loop\<close>
  "cart_row oid item_data =
     \<lparr>oi_order_id = oid, oi_product_id = p_id (ci_product item_data),
      oi_quantity = ci_quantity item_data, oi_unit_price = ci_unit_price item_data,
      oi_total_price = ci_total_price item_data\<rparr>"

definition new_order_try ::
  "env \<Rightarrow> db_session \<Rightarrow> user \<Rightarrow> order_form
     \<Rightarrow> (py_exn \<times> db_session) + (pos_response \<times> db_session)" where
  "new_order_try e s current_user form =
     (if \<not> csrf_valid form then Inl (CSRFError, s)
      else case f_discount_amount form of
        Malformed \<Rightarrow> Inl (ValueError, s)
      | fd \<Rightarrow>
       (let discount_amount = (case fd of Given d \<Rightarrow> d | _ \<Rightarrow> 0)
        in if f_product_ids form = []
           then Inr ((FlashText ''Please add items to the order.'', ''danger'',
                      ''pos.new_order''), s)
           else case new_order_cart (working s) 0 (f_product_ids form) (f_quantities form) [] 0 of
             Inl exn \<Rightarrow> Inl (exn, s)
           | Inr (cart, total_amount) \<Rightarrow>
              (let total_amount = total_amount - discount_amount;
                   tax_rate = (case Settings_query_first (working s) of
                                 Some settings \<Rightarrow> st_tax_rate settings | None \<Rightarrow> 0);
                   tax_amount = (total_amount * tax_rate) / 100;
                   ord = \<lparr>o_id = next_order_id (working s),
                          o_order_number = generate_order_number (utcnow e) (working s),
                          o_user_id = u_id current_user,
                          o_customer_id =
                            (case f_customer_id form of
                               None \<Rightarrow> None
                             | Some c \<Rightarrow> if c = 0 then None else Some c),
                          o_total_amount = Some (total_amount + tax_amount),
                          o_tax_amount = tax_amount,
                          o_discount_amount = discount_amount,
                          o_payment_method = f_payment_method form,
                          o_status = ''pending'',
                          o_created_at = utcnow e,
                          o_updated_at = utcnow e,
                          o_completed_at = None\<rparr>
               in case flush_result e of
                    Some err \<Rightarrow> Inl (DBError err, s)
                  | None \<Rightarrow>
                     (let s1 = s\<lparr>working := add_order ord (working s)\<rparr>;
                          w2 = fold (\<lambda>item_data. add_order_item (cart_row (o_id ord) item_data))
                                 cart (working s1);
                          txn = order_transaction ord (total_amount + tax_amount)
                                  (f_payment_method form) (u_id current_user) (utcnow e);
                          s3 = s1\<lparr>working := add_transaction txn w2\<rparr>
                      in case commit_result e of
                           Some err \<Rightarrow> Inl (DBError err, s3)
                         | None \<Rightarrow>
                             Inr ((FlashOrderCreated (o_order_number ord), ''success'',
                                   ''pos.orders''), commit s3)))))"

definition new_order :: "env \<Rightarrow> store \<Rightarrow> user \<Rightarrow> order_form \<Rightarrow> pos_response \<times> db_session" where
  \<comment> \<open>the POST branch of the view\<close>
  "new_order e st current_user form =
     (case new_order_try e (new_session st) current_user form of
        Inl (exn, s) \<Rightarrow>
          ((FlashText ''Error creating order.'', ''danger'', ''pos.new_order''), rollback s)
      | Inr r \<Rightarrow> r)"



subsection \<open>api\_routes.py and pos\_routes.py: update\_order\_status\<close>

definition Order_query_get :: "store \<Rightarrow> int \<Rightarrow> order option" where
  "Order_query_get w oid = find (\<lambda>ord. o_id ord = oid) (orders w)"

definition set_order_status :: "datetime \<Rightarrow> string \<Rightarrow> order \<Rightarrow> order" where
  \<comment> \<open>the three assignments both views make once the status name is accepted\<close>
  "set_order_status now new_status ord =
     (let ord1 = ord\<lparr>o_status := new_status, o_updated_at := now\<rparr>
      in if new_status = ''completed'' then ord1\<lparr>o_completed_at := Some now\<rparr> else ord1)"

text \<open>
  The API view. The JSON body is \<open>None\<close> when it is missing or has no \<open>status\<close> key. The
  view has no \<open>try\<close>: a failed commit is an unhandled exception, answered by the
  blueprint's 500 handler with the session left as it is.
\<close>

definition api_update_order_status ::
  "env \<Rightarrow> store \<Rightarrow> int \<Rightarrow> string option \<Rightarrow> api_response \<times> db_session" where
  "api_update_order_status e st oid data =
     (let s = new_session st
      in case Order_query_get (working s) oid of
           None \<Rightarrow> ((404, ErrorMsg ''Resource not found''), s)
         | Some ord \<Rightarrow>
             (case data of
                None \<Rightarrow> ((400, ErrorMsg ''Status is required''), s)
              | Some new_status \<Rightarrow>
                  if new_status \<notin> set [''pending'', ''in_progress'', ''ready'', ''completed'',
                                         ''cancelled'']
                  then ((400, ErrorMsg ''Invalid status''), s)
                  else
                    (let ord' = set_order_status (utcnow e) new_status ord;
                         s1 = s\<lparr>working := update_order ord' (working s)\<rparr>
                     in case commit_result e of
                          Some err \<Rightarrow> ((500, ErrorMsg ''Internal server error''), s1)
                        | None \<Rightarrow>
                            ((200, OrderDump ord' (order_items_of (working s1) (o_id ord'))),
                             commit s1))))"

datatype pos_result = Abort404 | Flashed string string string

text \<open>
  The POS view: \<open>get_or_404\<close> runs before the \<open>try\<close>; inside it, a bad CSRF token or a
  failed commit raises, and the handler rolls back. The form's \<open>status\<close> is \<open>None\<close> when
  the field is missing.
\<close>

definition pos_update_order_status ::
  "env \<Rightarrow> store \<Rightarrow> int \<Rightarrow> bool \<Rightarrow> string option \<Rightarrow> pos_result \<times> db_session" where
  "pos_update_order_status e st oid csrf_ok form_status =
     (let s = new_session st
      in case Order_query_get (working s) oid of
           None \<Rightarrow> (Abort404, s)
         | Some ord \<Rightarrow>
             if \<not> csrf_ok
             then (Flashed ''Error updating order status.'' ''danger'' ''pos.orders'', rollback s)
             else
               (case form_status of
                  None \<Rightarrow> (Flashed ''Invalid status.'' ''danger'' ''pos.orders'', s)
                | Some new_status \<Rightarrow>
                    if new_status \<in> set [''pending'', ''in_progress'', ''ready'', ''completed'',
                                          ''cancelled'']
                    then
                      (let ord' = set_order_status (utcnow e) new_status ord;
                           s1 = s\<lparr>working := update_order ord' (working s)\<rparr>
                       in case commit_result e of
                            Some err \<Rightarrow>
                              (Flashed ''Error updating order status.'' ''danger'' ''pos.orders'',
                               rollback s1)
                          | None \<Rightarrow>
                              (Flashed (''Order status updated to '' @ new_status @ ''!'')
                                 ''success'' ''pos.orders'',
                               commit s1))
                    else (Flashed ''Invalid status.'' ''danger'' ''pos.orders'', s)))"


subsection \<open>utils.py: cleanup\_old\_backups\<close>







subsection \<open>api\_routes.py: weekly\_report; utils.py: export\_to\_excel\<close>

record weekly_summary =
  week_start :: date
  week_end :: date
  w_income :: rat
  w_expense :: rat
  w_net_income :: rat
  w_total_orders :: nat

definition weekly_report :: "datetime \<Rightarrow> store \<Rightarrow> weekly_summary" where
  "weekly_report now st =
     (let today = date_of now;
          start_of_week = today - weekday today;
          end_of_week = start_of_week + 6;
          week_income =
            sum_list (map t_amount
              (filter (\<lambda>t. t_type t = ''income'' \<and> date_of (t_created_at t) \<ge> start_of_week
                           \<and> date_of (t_created_at t) \<le> end_of_week) (transactions st)));
          week_expense =
            sum_list (map t_amount
              (filter (\<lambda>t. t_type t = ''expense'' \<and> date_of (t_created_at t) \<ge> start_of_week
                           \<and> date_of (t_created_at t) \<le> end_of_week) (transactions st)));
          total_orders =
            length (filter (\<lambda>ord. date_of (o_created_at ord) \<ge> start_of_week
                                 \<and> date_of (o_created_at ord) \<le> end_of_week) (orders st))
      in \<lparr>week_start = start_of_week, week_end = end_of_week,
          w_income = week_income, w_expense = week_expense,
          w_net_income = week_income - week_expense, w_total_orders = total_orders\<rparr>)"

text \<open>
  Of the spreadsheet, the model keeps the period, the rows of the two data sheets (newest
  first) and the figures of the overview sheet; headers, language and formatting are left
  out.
\<close>

record export =
  x_start_date :: datetime
  x_end_date :: datetime
  x_transactions :: "transaction list"
  x_orders :: "order list"
  x_total_income :: rat
  x_total_expense :: rat
  x_net_income :: rat
  x_total_orders :: nat
  x_completed_orders :: nat
  x_pending_orders :: nat

definition export_start_date :: "string \<Rightarrow> datetime \<Rightarrow> datetime" where
  "export_start_date period end_date =
     (if period = ''daily'' then end_date - end_date mod 86400000000
      else if period = ''weekly'' then end_date - timedelta_days 7
      else if period = ''monthly'' then end_date - timedelta_days 30
      else end_date - timedelta_days 1)"

definition export_to_excel :: "string \<Rightarrow> datetime \<Rightarrow> store \<Rightarrow> export" where
  "export_to_excel period now st =
     (let end_date = now;
          start_date = export_start_date period end_date;
          txns = sort_key (\<lambda>t. - t_created_at t)
                   (filter (\<lambda>t. t_created_at t \<ge> start_date) (transactions st));
          ords = sort_key (\<lambda>ord. - o_created_at ord)
                   (filter (\<lambda>ord. o_created_at ord \<ge> start_date) (orders st));
          total_income = sum_list (map t_amount (filter (\<lambda>t. t_type t = ''income'') txns));
          total_expense = sum_list (map t_amount (filter (\<lambda>t. t_type t = ''expense'') txns))
      in \<lparr>x_start_date = start_date, x_end_date = end_date,
          x_transactions = txns, x_orders = ords,
          x_total_income = total_income, x_total_expense = total_expense,
          x_net_income = total_income - total_expense,
          x_total_orders = length ords,
          x_completed_orders = length (filter (\<lambda>ord. o_status ord = ''completed'') ords),
          x_pending_orders = length (filter (\<lambda>ord. o_status ord = ''pending'') ords)\<rparr>)"


subsection \<open>config.py and auth.py: token issuance and verification\<close>

record config =
  JWT_SECRET_KEY :: string
  JWT_ACCESS_TOKEN_EXPIRES :: int
  JWT_REFRESH_TOKEN_EXPIRES :: int

definition Config :: "string \<Rightarrow> config" where
  \<comment> \<open>class \<open>Config\<close>; the secret comes from the environment\<close>
  "Config secret =
     \<lparr>JWT_SECRET_KEY = secret,
      JWT_ACCESS_TOKEN_EXPIRES = timedelta_hours 24,
      JWT_REFRESH_TOKEN_EXPIRES = timedelta_days 30\<rparr>"

text \<open>
  The PyJWT library is outside the repository; the model keeps what \<open>verify_jwt_token\<close>
  relies on. A token is either not a JWT at all or carries an algorithm name, a payload
  and a signature, and a signature is identified with the key it was made with. A payload
  is a dictionary from claim names to integers or strings. \<open>jwt.encode\<close> writes a
  \<open>datetime\<close> claim as whole seconds since the epoch. \<open>jwt.decode\<close> raises
  \<open>InvalidTokenError\<close> (or a subclass) on a token that is not a JWT, on an algorithm that
  is not allowed and on a signature made with another key; it raises
  \<open>ExpiredSignatureError\<close> when the \<open>exp\<close> claim is not in the future; otherwise it
  returns the payload.
\<close>

datatype claim_value = IntClaim int | StrClaim string

type_synonym payload = "(string \<times> claim_value) list"

datatype token = NotAJwt | Signed string payload string

datatype jwt_error = ExpiredSignatureError | InvalidTokenError

definition jwt_encode :: "payload \<Rightarrow> string \<Rightarrow> string \<Rightarrow> token" where
  "jwt_encode pl key algorithm = Signed algorithm pl key"

definition jwt_decode :: "datetime \<Rightarrow> token \<Rightarrow> string \<Rightarrow> string list \<Rightarrow> jwt_error + payload" where
  "jwt_decode now tok key algorithms =
     (case tok of
        NotAJwt \<Rightarrow> Inl InvalidTokenError
      | Signed alg pl signed_with \<Rightarrow>
          if alg \<notin> set algorithms then Inl InvalidTokenError
          else if signed_with \<noteq> key then Inl InvalidTokenError
          else (case map_of pl ''exp'' of
                  None \<Rightarrow> Inr pl
                | Some (StrClaim x) \<Rightarrow> Inl InvalidTokenError
                | Some (IntClaim expiry) \<Rightarrow>
                    if expiry * 1000000 \<le> now then Inl ExpiredSignatureError else Inr pl))"

definition generate_jwt_token :: "config \<Rightarrow> datetime \<Rightarrow> user \<Rightarrow> token" where
  "generate_jwt_token cfg now u =
     jwt_encode
       [(''user_id'', IntClaim (u_id u)),
        (''username'', StrClaim (username u)),
        (''role'', StrClaim (role u)),
        (''exp'', IntClaim ((now + JWT_ACCESS_TOKEN_EXPIRES cfg) div 1000000)),
        (''iat'', IntClaim (now div 1000000)),
        (''type'', StrClaim ''access'')]
       (JWT_SECRET_KEY cfg) ''HS256''"

definition generate_refresh_token :: "config \<Rightarrow> datetime \<Rightarrow> user \<Rightarrow> token" where
  "generate_refresh_token cfg now u =
     jwt_encode
       [(''user_id'', IntClaim (u_id u)),
        (''exp'', IntClaim ((now + JWT_REFRESH_TOKEN_EXPIRES cfg) div 1000000)),
        (''iat'', IntClaim (now div 1000000)),
        (''type'', StrClaim ''refresh'')]
       (JWT_SECRET_KEY cfg) ''HS256''"

definition User_query_get :: "user list \<Rightarrow> claim_value \<Rightarrow> user option" where
  "User_query_get users uid =
     (case uid of IntClaim i \<Rightarrow> find (\<lambda>u. u_id u = i) users | StrClaim x \<Rightarrow> None)"

text \<open>
  \<open>verify_jwt_token\<close> catches the two JWT exceptions and nothing else: a payload without
  the key \<open>type\<close> or \<open>user_id\<close> makes the subscript raise \<open>KeyError\<close>, which leaves the
  function.
\<close>

definition verify_jwt_token :: "config \<Rightarrow> user list \<Rightarrow> datetime \<Rightarrow> token \<Rightarrow> py_exn + user option" where
  "verify_jwt_token cfg users now tok =
     (case jwt_decode now tok (JWT_SECRET_KEY cfg) [''HS256''] of
        Inl ExpiredSignatureError \<Rightarrow> Inr None
      | Inl InvalidTokenError \<Rightarrow> Inr None
      | Inr pl \<Rightarrow>
          (case map_of pl ''type'' of
             None \<Rightarrow> Inl KeyError
           | Some ty \<Rightarrow>
               if ty \<noteq> StrClaim ''access'' then Inr None
               else (case map_of pl ''user_id'' of
                       None \<Rightarrow> Inl KeyError
                     | Some uid \<Rightarrow>
                         (case User_query_get users uid of
                            Some u \<Rightarrow> if is_active u then Inr (Some u) else Inr None
                          | None \<Rightarrow> Inr None))))"

text \<open>
  The decorator \<open>jwt_required\<close>: the bearer token of the \<open>Authorization\<close> header, if there
  is one, is verified; the view runs only for a verified user. An exception leaving
  \<open>verify_jwt_token\<close> leaves the decorator too.
\<close>

definition jwt_required ::
  "config \<Rightarrow> user list \<Rightarrow> datetime \<Rightarrow> token option \<Rightarrow> (user \<Rightarrow> 'a) \<Rightarrow> py_exn + 'a guarded" where
  "jwt_required cfg users now bearer f =
     (case bearer of
        None \<Rightarrow> Inr (Status401 ''Token is missing'')
      | Some tok \<Rightarrow>
          (case verify_jwt_token cfg users now tok of
             Inl exn \<Rightarrow> Inl exn
           | Inr None \<Rightarrow> Inr (Status401 ''Token is invalid or expired'')
           | Inr (Some u) \<Rightarrow> Inr (Ran (f u))))"

section \<open>Vocabulary of the statements\<close>

subsection \<open>Referential well-formedness of a store\<close>

text \<open>
  \<open>order_items.order_id\<close> is a foreign key to \<open>orders.id\<close>: every stored item belongs to
  a stored order. A ledger entry whose \<open>reference_type\<close> is \<open>'order'\<close> points at a stored
  order; the views write such entries only together with their order, and manual
  entries carry \<open>reference_type='manual'\<close>.
\<close>

definition items_ok :: "store \<Rightarrow> bool" where
  "items_ok st = (\<forall>i \<in> set (order_items st). \<exists>ord \<in> set (orders st). o_id ord = oi_order_id i)"

definition ledger_ok :: "store \<Rightarrow> bool" where
  "ledger_ok st =
     (\<forall>t \<in> set (transactions st). t_reference_type t = ''order'' \<longrightarrow>
        (\<exists>ord \<in> set (orders st). t_reference_id t = Some (o_id ord)))"



definition current_tax_rate :: "store \<Rightarrow> rat" where
  \<comment> \<open>\<open>settings.tax_rate if settings else 0\<close>, as the POS view reads it\<close>
  "current_tax_rate w =
     (case Settings_query_first w of Some settings \<Rightarrow> st_tax_rate settings | None \<Rightarrow> 0)"

subsection \<open>What one pass of each item loop writes\<close>

definition api_line :: "store \<Rightarrow> int \<Rightarrow> item_data \<Rightarrow> order_item \<Rightarrow> bool" where
  "api_line w oid it row =
     (\<exists>p. Product_query_get w (it_product_id it) = Some p \<and>
          row = \<lparr>oi_order_id = oid, oi_product_id = p_id p, oi_quantity = it_quantity it,
                 oi_unit_price = (case it_unit_price it of None \<Rightarrow> p_price p | Some u \<Rightarrow> u),
                 oi_total_price = (case it_unit_price it of None \<Rightarrow> p_price p | Some u \<Rightarrow> u)
                                    * of_int (it_quantity it)\<rparr>)"

definition pos_line :: "store \<Rightarrow> cart_item \<Rightarrow> bool" where
  "pos_line w c =
     (Product_query_get w (p_id (ci_product c)) = Some (ci_product c) \<and>
      ci_unit_price c = p_price (ci_product c) \<and>
      ci_total_price c = ci_unit_price c * of_int (ci_quantity c))"

subsection \<open>The tax formula as the specification words it\<close>



subsection \<open>The order of the status names\<close>

text \<open>
  The forward order \<open>pending\<close>, \<open>in_progress\<close>, \<open>ready\<close>, \<open>completed\<close> of the
  specification, with \<open>cancelled\<close> outside it: a change of status is forward when its
  rank does not decrease, and a change to \<open>cancelled\<close> is the explicit exception.
\<close>

definition status_rank :: "string \<Rightarrow> nat option" where
  "status_rank s =
     (if s = ''pending'' then Some 0
      else if s = ''in_progress'' then Some 1
      else if s = ''ready'' then Some 2
      else if s = ''completed'' then Some 3
      else None)"

definition forward_or_cancelled :: "string \<Rightarrow> string \<Rightarrow> bool" where
  "forward_or_cancelled old new =
     (new = ''cancelled'' \<or>
      (case (status_rank old, status_rank new) of
         (Some a, Some b) \<Rightarrow> a \<le> b
       | _ \<Rightarrow> False))"

subsection \<open>The most recent successful backup\<close>


subsection \<open>The Monday-to-Sunday week of a moment\<close>

definition in_current_week :: "datetime \<Rightarrow> datetime \<Rightarrow> bool" where
  "in_current_week now t =
     (let monday = date_of now - weekday (date_of now)
      in monday \<le> date_of t \<and> date_of t \<le> monday + 6)"

subsection \<open>A payload that has not expired\<close>

text \<open>
  The condition under which \<open>jwt_decode\<close> lets the \<open>exp\<close> claim of a payload pass.
\<close>

definition exp_ok :: "datetime \<Rightarrow> payload \<Rightarrow> bool" where
  "exp_ok now pl =
     (case map_of pl ''exp'' of
        None \<Rightarrow> True
      | Some (IntClaim expiry) \<Rightarrow> now < expiry * 1000000
      | Some (StrClaim x) \<Rightarrow> False)"

subsection \<open>A small shop, for concrete runs\<close>

text \<open>
  One product, a shirt at 15.00, and the seeded settings row with a tax rate of 14 percent;
  no orders yet. The request orders two shirts, paid in cash, without discount.
\<close>

definition shop :: store where
  "shop = \<lparr>products = [\<lparr>p_id = 1, p_price = 15\<rparr>],
           settings_rows = [\<lparr>st_tax_rate = 14\<rparr>],
           orders = [], order_items = [], transactions = []\<rparr>"

definition clerk :: user where
  "clerk = \<lparr>u_id = 1, username = ''admin'', role = ''admin'', is_active = True\<rparr>"

definition fine_day :: env where
  \<comment> \<open>2023-11-14T22:13:20Z; the store accepts every flush and commit\<close>
  "fine_day = \<lparr>utcnow = 1700000000000000, flush_result = None, commit_result = None\<rparr>"

definition duplicate_number_day :: env where
  \<comment> \<open>the same moment, but the store refuses the insert of the order row: its number is taken\<close>
  "duplicate_number_day = fine_day\<lparr>flush_result := Some IntegrityError\<rparr>"

definition two_shirts_json :: order_json where
  "two_shirts_json =
     \<lparr>oj_items = Some [\<lparr>ij_product_id = Some 1, ij_quantity = Some 2, ij_unit_price = Some 15\<rparr>],
      oj_customer_id = None, oj_discount_amount = None, oj_payment_method = Some ''cash''\<rparr>"

definition two_shirts_form :: order_form where
  "two_shirts_form =
     \<lparr>csrf_valid = True, f_customer_id = None, f_payment_method = Some ''cash'',
      f_discount_amount = Absent, f_product_ids = [Given 1], f_quantities = [Some 2]\<rparr>"



text \<open>
  The shop a day later, its one order completed; a backup directory whose only backup is
  forty days old, and one with a fresh backup beside it; a Wednesday noon (2024-01-10)
  with one manual income entry of 100 made the Friday before (2024-01-05).
\<close>

definition finished_shop :: store where
  "finished_shop =
     shop\<lparr>orders :=
       [\<lparr>o_id = 1, o_order_number = ORD 19675 1, o_user_id = 1,
         o_customer_id = None, o_total_amount = Some 30, o_tax_amount = 0,
         o_discount_amount = 0, o_payment_method = Some ''cash'',
         o_status = ''completed'', o_created_at = 1700000000000000,
         o_updated_at = 1700000600000000, o_completed_at = Some 1700000600000000\<rparr>]\<rparr>"

definition next_day :: env where
  "next_day = \<lparr>utcnow = 1700086400000000, flush_result = None, commit_result = None\<rparr>"



definition wednesday_noon :: datetime where
  "wednesday_noon = 1704888000000000"

definition friday_sale_shop :: store where
  "friday_sale_shop =
     shop\<lparr>transactions :=
       [\<lparr>t_type = ''income'', t_category = ''sales'', t_amount = 100,
         t_reference_type = ''manual'', t_reference_id = None,
         t_payment_method = Some ''cash'', t_created_by = 1,
         t_created_at = 1704456000000000\<rparr>]\<rparr>"

text \<open>
  The signing secret that \<open>config.py\<close> falls back to, and a token signed with it whose
  payload names user 1 and expires a day after the shop's clock, but has no \<open>type\<close>.
\<close>

definition dev_secret :: string where
  "dev_secret = ''dev-secret-key-change-in-production''"

definition typeless_token :: token where
  "typeless_token =
     jwt_encode [(''user_id'', IntClaim 1), (''exp'', IntClaim 1700086400)] dev_secret ''HS256''"

section \<open>Verified properties\<close>

subsection \<open>Order creation: what a successful run writes\<close>

lemma foldr_max_ge: "x \<in> set xs \<Longrightarrow> x \<le> foldr max xs (b::int)"
  by (induction xs) auto

lemma next_order_id_fresh: "x \<in> set (orders w) \<Longrightarrow> o_id x < next_order_id w"
  using foldr_max_ge [of "o_id x" "map o_id (orders w)" 0]
  by (simp add: next_order_id_def)

lemma update_order_last:
  assumes "orders w = xs @ [ord]" "\<forall>x \<in> set xs. o_id x \<noteq> o_id ord" "o_id ord' = o_id ord"
  shows "update_order ord' w = w\<lparr>orders := xs @ [ord']\<rparr>"
proof -
  have "map (\<lambda>x. if o_id x = o_id ord' then ord' else x) xs = xs"
    using assms(2,3) by (simp add: map_idI)
  then show ?thesis using assms by (simp add: update_order_def)
qed

lemma Product_query_get_cong: "products w' = products w \<Longrightarrow> Product_query_get w' = Product_query_get w"
  by (simp add: Product_query_get_def fun_eq_iff)

lemma create_order_items_Inr:
  "create_order_items oid its w t = Inr (w', t') \<Longrightarrow>
     \<exists>rows. w' = w\<lparr>order_items := order_items w @ rows\<rparr> \<and>
            t' = t + sum_list (map oi_total_price rows) \<and>
            list_all2 (api_line w oid) its rows"
proof (induction its arbitrary: w t)
  case Nil
  then show ?case by simp
next
  case (Cons it its)
  from Cons.prems obtain p where p: "Product_query_get w (it_product_id it) = Some p"
    by (auto split: option.splits)
  define up where "up = (case it_unit_price it of None \<Rightarrow> p_price p | Some u \<Rightarrow> u)"
  define row where "row = \<lparr>oi_order_id = oid, oi_product_id = p_id p, oi_quantity = it_quantity it,
                 oi_unit_price = up, oi_total_price = up * of_int (it_quantity it)\<rparr>"
  have rec: "create_order_items oid its (add_order_item row w) (t + up * of_int (it_quantity it)) = Inr (w', t')"
    using Cons.prems p by (simp add: Let_def up_def row_def)
  from Cons.IH [OF rec] obtain rows where
    r: "w' = (add_order_item row w)\<lparr>order_items := order_items (add_order_item row w) @ rows\<rparr>"
       "t' = t + up * of_int (it_quantity it) + sum_list (map oi_total_price rows)"
       "list_all2 (api_line (add_order_item row w) oid) its rows"
    by blast
  have pq: "Product_query_get (add_order_item row w) = Product_query_get w"
    by (rule Product_query_get_cong) (simp add: add_order_item_def)
  have "api_line w oid it row"
    using p by (simp add: api_line_def row_def up_def)
  moreover have "list_all2 (api_line w oid) its rows"
  proof -
    have "api_line (add_order_item row w) oid = api_line w oid"
      by (simp add: fun_eq_iff api_line_def pq)
    with r(3) show ?thesis by simp
  qed
  moreover have "w' = w\<lparr>order_items := order_items w @ (row # rows)\<rparr>"
    using r(1) by (simp add: add_order_item_def)
  moreover have "t' = t + sum_list (map oi_total_price (row # rows))"
    using r(2) by (simp add: row_def)
  ultimately show ?case by (intro exI [of _ "row # rows"]) simp
qed

lemma create_order_try_201:
  assumes "create_order_try e (new_session st) cu data its = ((201, body), s')"
  shows "\<exists>ord rows.
           flush_result e = None \<and> commit_result e = None \<and>
           list_all2 (api_line st (next_order_id st)) its rows \<and>
           o_id ord = next_order_id st \<and>
           o_tax_amount ord = 0 \<and>
           o_discount_amount ord = (case d_discount_amount data of None \<Rightarrow> 0 | Some d \<Rightarrow> d) \<and>
           o_total_amount ord =
             Some (sum_list (map oi_total_price rows) - o_discount_amount ord + o_tax_amount ord) \<and>
           o_status ord = ''pending'' \<and>
           o_payment_method ord = Some (d_payment_method data) \<and>
           s' = new_session
                  (st\<lparr>orders := orders st @ [ord],
                      order_items := order_items st @ rows,
                      transactions := transactions st @
                        [order_transaction ord (the (o_total_amount ord)) (o_payment_method ord)
                           (u_id cu) (utcnow e)]\<rparr>) \<and>
           body = OrderDump ord (order_items_of (committed s') (o_id ord))"
proof -
  define ord where "ord = \<lparr>o_id = next_order_id st,
                  o_order_number = generate_order_number (utcnow e) st,
                  o_user_id = u_id cu,
                  o_customer_id = d_customer_id data,
                  o_total_amount = None,
                  o_tax_amount = 0,
                  o_discount_amount =
                    (case d_discount_amount data of None \<Rightarrow> 0 | Some d \<Rightarrow> d),
                  o_payment_method = Some (d_payment_method data),
                  o_status = ''pending'',
                  o_created_at = utcnow e,
                  o_updated_at = utcnow e,
                  o_completed_at = None\<rparr>"
  from assms have fl: "flush_result e = None"
    by (auto simp: create_order_try_def Let_def split: option.splits)
  have oid [simp]: "o_id ord = next_order_id st" by (simp add: ord_def)
  from assms fl obtain w t where
    loop: "create_order_items (next_order_id st) its (add_order ord st) 0 = Inr (w, t)"
    by (auto simp: create_order_try_def Let_def new_session_def ord_def split: sum.splits prod.splits)
  from assms fl loop have cm: "commit_result e = None"
    by (auto simp: create_order_try_def Let_def new_session_def ord_def split: option.splits)
  from create_order_items_Inr [OF loop] obtain rows where
    rows: "w = (add_order ord st)\<lparr>order_items := order_items (add_order ord st) @ rows\<rparr>"
          "t = sum_list (map oi_total_price rows)"
          "list_all2 (api_line (add_order ord st) (next_order_id st)) its rows"
    by auto
  have al: "api_line (add_order ord st) (next_order_id st) = api_line st (next_order_id st)"
    by (simp add: fun_eq_iff api_line_def Product_query_get_def add_order_def)
  define ord2 where "ord2 = ord\<lparr>o_tax_amount := 0,
       o_total_amount := Some (t - o_discount_amount ord + 0)\<rparr>"
  have fresh: "\<forall>x \<in> set (orders st). o_id x \<noteq> o_id ord"
    using next_order_id_fresh [of _ st] by (fastforce simp: ord_def)
  have w_eq: "w = st\<lparr>orders := orders st @ [ord], order_items := order_items st @ rows\<rparr>"
    using rows(1) by (simp add: add_order_def)
  have upd: "update_order ord2 w = w\<lparr>orders := orders st @ [ord2]\<rparr>"
    by (rule update_order_last [OF _ fresh]) (simp_all add: w_eq ord2_def)
  from assms fl loop cm have res:
    "body = OrderDump ord2 (order_items_of (add_transaction
              (order_transaction ord2 (t - o_discount_amount ord + 0) (o_payment_method ord2) (u_id cu) (utcnow e))
              (update_order ord2 w)) (o_id ord2))"
    "s' = commit ((new_session st)\<lparr>working := add_transaction
              (order_transaction ord2 (t - o_discount_amount ord + 0) (o_payment_method ord2) (u_id cu) (utcnow e))
              (update_order ord2 w)\<rparr>)"
    by (auto simp: create_order_try_def Let_def new_session_def ord_def [symmetric] ord2_def)
  have c1: "list_all2 (api_line st (next_order_id st)) its rows"
    using rows(3) by (simp add: al)
  have c2: "o_id ord2 = next_order_id st" "o_tax_amount ord2 = 0"
    "o_discount_amount ord2 = (case d_discount_amount data of None \<Rightarrow> 0 | Some d \<Rightarrow> d)"
    "o_status ord2 = ''pending''" "o_payment_method ord2 = Some (d_payment_method data)"
    by (simp_all add: ord2_def ord_def)
  have c3: "o_total_amount ord2 =
      Some (sum_list (map oi_total_price rows) - o_discount_amount ord2 + o_tax_amount ord2)"
    by (simp add: ord2_def rows(2))
  have tot: "the (o_total_amount ord2) = t - o_discount_amount ord + 0"
    by (simp add: ord2_def)
  have c4: "s' = new_session
                  (st\<lparr>orders := orders st @ [ord2],
                      order_items := order_items st @ rows,
                      transactions := transactions st @
                        [order_transaction ord2 (the (o_total_amount ord2)) (o_payment_method ord2)
                           (u_id cu) (utcnow e)]\<rparr>)"
    unfolding res(2) upd tot
    by (simp add: w_eq add_transaction_def commit_def new_session_def)
  have c5: "body = OrderDump ord2 (order_items_of (committed s') (o_id ord2))"
    unfolding res(1) res(2) by (simp add: commit_def)
  from fl cm c1 c2 c3 c4 c5 show ?thesis by blast
qed

lemma Product_query_get_Some: "Product_query_get w pid = Some p \<Longrightarrow> p_id p = pid"
  by (auto simp: Product_query_get_def find_Some_iff)

lemma new_order_cart_Inr:
  "new_order_cart w i ids qs cart t = Inr (cart', t') \<Longrightarrow>
     \<exists>new. cart' = cart @ new \<and> t' = t + sum_list (map ci_total_price new) \<and>
           (\<forall>c \<in> set new. pos_line w c)"
proof (induction w i ids qs cart t rule: new_order_cart.induct)
  case (1 w i quantities cart total_amount)
  then show ?case by simp
next
  case (2 w i rest quantities cart total_amount)
  then show ?case by simp
next
  case (3 w i rest quantities cart total_amount)
  then show ?case by simp
next
  case (4 w i pid rest quantities cart total_amount)
  from "4.prems" obtain q p where
    q: "i < length quantities" "quantities ! i = Some q" and p: "Product_query_get w pid = Some p"
    by (auto simp: Let_def split: if_splits option.splits)
  define c where "c = \<lparr>ci_product = p, ci_quantity = q,
                                  ci_unit_price = p_price p, ci_total_price = p_price p * of_int q\<rparr>"
  have rec: "new_order_cart w (Suc i) rest quantities (cart @ [c]) (total_amount + p_price p * of_int q)
               = Inr (cart', t')"
    using "4.prems" q p by (simp add: Let_def c_def)
  have "\<exists>new. cart' = (cart @ [c]) @ new \<and>
          t' = total_amount + p_price p * of_int q + sum_list (map ci_total_price new) \<and>
          (\<forall>c \<in> set new. pos_line w c)"
    using "4.IH" [OF refl _ q(2) p refl refl] q(1) rec by (simp add: c_def)
  then obtain new where n: "cart' = (cart @ [c]) @ new"
      "t' = total_amount + p_price p * of_int q + sum_list (map ci_total_price new)"
      "\<forall>c \<in> set new. pos_line w c" by blast
  have "pos_line w c"
    using p Product_query_get_Some [OF p] by (simp add: pos_line_def c_def)
  with n show ?case
    by (intro exI [of _ "c # new"]) (simp add: c_def)
qed

lemma fold_add_order_item:
  "fold (\<lambda>c. add_order_item (f c)) cart w = w\<lparr>order_items := order_items w @ map f cart\<rparr>"
  by (induction cart arbitrary: w) (simp_all add: add_order_item_def)

lemma new_order_created:
  assumes "new_order e st cu form = ((FlashOrderCreated n, cat, endpoint), s')"
  shows "\<exists>ord cart.
           flush_result e = None \<and> commit_result e = None \<and>
           (\<forall>c \<in> set cart. pos_line st c) \<and>
           o_id ord = next_order_id st \<and>
           o_order_number ord = n \<and>
           o_discount_amount ord = (case f_discount_amount form of Given d \<Rightarrow> d | _ \<Rightarrow> 0) \<and>
           o_tax_amount ord =
             (sum_list (map ci_total_price cart) - o_discount_amount ord) * current_tax_rate st / 100 \<and>
           o_total_amount ord =
             Some (sum_list (map ci_total_price cart) - o_discount_amount ord + o_tax_amount ord) \<and>
           o_status ord = ''pending'' \<and>
           o_payment_method ord = f_payment_method form \<and>
           s' = new_session
                  (st\<lparr>orders := orders st @ [ord],
                      order_items := order_items st @ map (cart_row (o_id ord)) cart,
                      transactions := transactions st @
                        [order_transaction ord (the (o_total_amount ord)) (o_payment_method ord)
                           (u_id cu) (utcnow e)]\<rparr>)"
proof -
  from assms obtain r where
    tr: "new_order_try e (new_session st) cu form = Inr ((FlashOrderCreated n, cat, endpoint), s')"
    by (auto simp: new_order_def split: sum.splits prod.splits)
  define disc where "disc = (case f_discount_amount form of Given d \<Rightarrow> d | _ \<Rightarrow> 0)"
  from tr have nm: "f_discount_amount form \<noteq> Malformed" "csrf_valid form" "f_product_ids form \<noteq> []"
    by (auto simp: new_order_try_def Let_def split: if_splits field.splits)
  from tr nm obtain cart t where
    loop: "new_order_cart st 0 (f_product_ids form) (f_quantities form) [] 0 = Inr (cart, t)"
    by (cases "f_discount_amount form")
       (auto simp: new_order_try_def Let_def new_session_def split: sum.splits)
  define tax where "tax = (t - disc) * current_tax_rate st / 100"
  define ord where "ord = \<lparr>o_id = next_order_id st,
                          o_order_number = generate_order_number (utcnow e) st,
                          o_user_id = u_id cu,
                          o_customer_id =
                            (case f_customer_id form of
                               None \<Rightarrow> None
                             | Some c \<Rightarrow> if c = 0 then None else Some c),
                          o_total_amount = Some (t - disc + tax),
                          o_tax_amount = tax,
                          o_discount_amount = disc,
                          o_payment_method = f_payment_method form,
                          o_status = ''pending'',
                          o_created_at = utcnow e,
                          o_updated_at = utcnow e,
                          o_completed_at = None\<rparr>"
  have body: "new_order_try e (new_session st) cu form =
     (case flush_result e of
        Some err \<Rightarrow> Inl (DBError err, new_session st)
      | None \<Rightarrow>
         (let s3 = (new_session st)\<lparr>working := add_transaction
                     (order_transaction ord (t - disc + tax) (f_payment_method form) (u_id cu) (utcnow e))
                     (fold (\<lambda>item_data. add_order_item (cart_row (o_id ord) item_data)) cart
                        (add_order ord st))\<rparr>
          in case commit_result e of
               Some err \<Rightarrow> Inl (DBError err, s3)
             | None \<Rightarrow> Inr ((FlashOrderCreated (o_order_number ord), ''success'', ''pos.orders''),
                             commit s3)))"
    using nm loop
    by (cases "f_discount_amount form")
       (simp_all add: new_order_try_def Let_def new_session_def ord_def tax_def disc_def
          current_tax_rate_def split: option.split)
  from tr have fl: "flush_result e = None"
    unfolding body by (auto split: option.splits)
  from tr fl have cm: "commit_result e = None"
    unfolding body by (auto simp: Let_def split: option.splits)
  from tr fl cm have res: "n = o_order_number ord"
    "s' = commit ((new_session st)\<lparr>working := add_transaction
                     (order_transaction ord (t - disc + tax) (f_payment_method form) (u_id cu) (utcnow e))
                     (fold (\<lambda>item_data. add_order_item (cart_row (o_id ord) item_data)) cart
                        (add_order ord st))\<rparr>)"
    unfolding body by (simp_all add: Let_def)
  from new_order_cart_Inr [OF loop] have
    t: "t = sum_list (map ci_total_price cart)" and lines: "\<forall>c \<in> set cart. pos_line st c"
    by auto
  have c2: "o_id ord = next_order_id st" "o_order_number ord = n"
    "o_discount_amount ord = (case f_discount_amount form of Given d \<Rightarrow> d | _ \<Rightarrow> 0)"
    "o_status ord = ''pending''" "o_payment_method ord = f_payment_method form"
    by (simp_all add: ord_def res(1) disc_def)
  have c3: "o_tax_amount ord =
             (sum_list (map ci_total_price cart) - o_discount_amount ord) * current_tax_rate st / 100"
    "o_total_amount ord =
             Some (sum_list (map ci_total_price cart) - o_discount_amount ord + o_tax_amount ord)"
    by (simp_all add: ord_def tax_def t)
  have tot: "the (o_total_amount ord) = t - disc + tax" "o_payment_method ord = f_payment_method form"
    by (simp_all add: ord_def)
  have c4: "s' = new_session
                  (st\<lparr>orders := orders st @ [ord],
                      order_items := order_items st @ map (cart_row (o_id ord)) cart,
                      transactions := transactions st @
                        [order_transaction ord (the (o_total_amount ord)) (o_payment_method ord)
                           (u_id cu) (utcnow e)]\<rparr>)"
    unfolding res(2) tot fold_add_order_item
    by (simp add: add_transaction_def add_order_def commit_def new_session_def)
  from fl cm lines c2 c3 c4 show ?thesis by blast
qed



lemma api_line_row:
  "api_line w oid it row \<Longrightarrow>
     oi_order_id row = oid \<and> oi_product_id row = it_product_id it \<and>
     oi_quantity row = it_quantity it \<and>
     oi_total_price row = oi_unit_price row * of_int (oi_quantity row) \<and>
     (\<exists>p. Product_query_get w (oi_product_id row) = Some p \<and>
          oi_unit_price row = (case it_unit_price it of None \<Rightarrow> p_price p | Some u \<Rightarrow> u))"
proof -
  assume "api_line w oid it row"
  then obtain p where p: "Product_query_get w (it_product_id it) = Some p"
    and row: "row = \<lparr>oi_order_id = oid, oi_product_id = p_id p, oi_quantity = it_quantity it,
                 oi_unit_price = (case it_unit_price it of None \<Rightarrow> p_price p | Some u \<Rightarrow> u),
                 oi_total_price = (case it_unit_price it of None \<Rightarrow> p_price p | Some u \<Rightarrow> u)
                                    * of_int (it_quantity it)\<rparr>"
    by (auto simp: api_line_def)
  have "p_id p = it_product_id it" using p by (rule Product_query_get_Some)
  with p show ?thesis by (simp add: row)
qed

lemma api_line_rows_oid:
  "list_all2 (api_line w oid) its rows \<Longrightarrow> \<forall>r \<in> set rows. oi_order_id r = oid"
  by (induction rule: list_all2_induct) (auto dest: api_line_row)

lemma create_order_201:
  assumes "create_order e st cu json = ((201, body), s')"
  shows "\<exists>data i its. order_schema_load json = Some data \<and> d_items data = Some (i # its) \<and>
           create_order_try e (new_session st) cu data (i # its) = ((201, body), s')"
  using assms
  by (auto simp: create_order_def split: option.splits list.splits)



subsection \<open>Order totals\<close>




subsection \<open>Order creation: what a failed run leaves\<close>

lemma create_order_committed:
  assumes "create_order e st cu json = (resp, s')"
  shows "(fst resp \<noteq> 201 \<longrightarrow> committed s' = st) \<and>
         (fst resp = 500 \<longrightarrow> resp = (500, ErrorMsg ''Failed to create order'') \<and> s' = new_session st) \<and>
         fst resp \<in> {201, 400, 500}"
  using assms
  by (auto simp: create_order_def create_order_try_def Let_def new_session_def rollback_def
           split: option.splits list.splits sum.splits prod.splits)

lemma new_order_failed:
  assumes "new_order e st cu form = ((FlashText msg, cat, endpoint), s')"
  shows "s' = new_session st"
  using assms
  apply (cases "f_discount_amount form")
  by (auto simp: new_order_def new_order_try_def Let_def new_session_def rollback_def
           split: option.splits list.splits sum.splits prod.splits if_splits)


subsection \<open>The ledger posting of an order\<close>





subsection \<open>Order creation keeps the references well-formed\<close>

text \<open>
  The two conditions on the store under which the order properties are stated hold of the
  empty shop and are kept by every run of either view, successful or not.
\<close>

lemma wf_extend:
  assumes "items_ok st" "ledger_ok st" "o_id ord = next_order_id st"
    "\<forall>r \<in> set rows. oi_order_id r = o_id ord"
    "t_reference_id t = Some (o_id ord)"
  shows "items_ok (st\<lparr>orders := orders st @ [ord], order_items := order_items st @ rows,
                      transactions := transactions st @ [t]\<rparr>)
       \<and> ledger_ok (st\<lparr>orders := orders st @ [ord], order_items := order_items st @ rows,
                      transactions := transactions st @ [t]\<rparr>)"
  using assms by (auto simp: items_ok_def ledger_ok_def)

lemma create_order_keeps_references:
  assumes "items_ok st" "ledger_ok st" "create_order e st cu json = (resp, s')"
  shows "items_ok (committed s') \<and> ledger_ok (committed s')"
proof (cases "fst resp = 201")
  case False
  with create_order_committed [OF assms(3)] assms(1,2) show ?thesis by simp
next
  case True
  then obtain body where a: "create_order e st cu json = ((201, body), s')"
    using assms(3) by (cases resp) auto
  from create_order_201 [OF a] obtain data i its where
    d: "create_order_try e (new_session st) cu data (i # its) = ((201, body), s')" by blast
  from create_order_try_201 [OF d] obtain ord rows where
    r: "list_all2 (api_line st (next_order_id st)) (i # its) rows"
       "o_id ord = next_order_id st"
       "s' = new_session
                  (st\<lparr>orders := orders st @ [ord],
                      order_items := order_items st @ rows,
                      transactions := transactions st @
                        [order_transaction ord (the (o_total_amount ord)) (o_payment_method ord)
                           (u_id cu) (utcnow e)]\<rparr>)"
    by blast
  have rows: "\<forall>r \<in> set rows. oi_order_id r = o_id ord"
    using api_line_rows_oid [OF r(1)] r(2) by simp
  show ?thesis
    unfolding r(3) new_session_def
    using wf_extend [OF assms(1,2) r(2) rows, of "order_transaction ord (the (o_total_amount ord))
        (o_payment_method ord) (u_id cu) (utcnow e)"]
    by (simp add: order_transaction_def)
qed

lemma new_order_keeps_references:
  assumes "items_ok st" "ledger_ok st" "new_order e st cu form = (resp, s')"
  shows "items_ok (committed s') \<and> ledger_ok (committed s')"
proof (cases "fst resp")
  case (FlashText msg)
  then obtain cat endpoint where "new_order e st cu form = ((FlashText msg, cat, endpoint), s')"
    using assms(3) by (cases resp) auto
  from new_order_failed [OF this] assms(1,2) show ?thesis by (simp add: new_session_def)
next
  case (FlashOrderCreated n)
  then obtain cat endpoint where a: "new_order e st cu form = ((FlashOrderCreated n, cat, endpoint), s')"
    using assms(3) by (cases resp) auto
  from new_order_created [OF a] obtain ord cart where
    r: "o_id ord = next_order_id st"
       "s' = new_session
                  (st\<lparr>orders := orders st @ [ord],
                      order_items := order_items st @ map (cart_row (o_id ord)) cart,
                      transactions := transactions st @
                        [order_transaction ord (the (o_total_amount ord)) (o_payment_method ord)
                           (u_id cu) (utcnow e)]\<rparr>)"
    by blast
  have rows: "\<forall>r \<in> set (map (cart_row (o_id ord)) cart). oi_order_id r = o_id ord"
    by (simp add: cart_row_def)
  show ?thesis
    unfolding r(2) new_session_def
    using wf_extend [OF assms(1,2) r(1) rows, of "order_transaction ord (the (o_total_amount ord))
        (o_payment_method ord) (u_id cu) (utcnow e)"]
    by (simp add: order_transaction_def)
qed

subsection \<open>Tax on an order\<close>



subsection \<open>Rollback when order creation fails\<close>



subsection \<open>A uniqueness violation on the order number\<close>

text \<open>
  C7, as stated, fails: when the store refuses the insert with an integrity error, the
  API view answers the generic 500 \<open>Failed to create order\<close>, not 409, after its single
  attempt.
\<close>

theorem uniqueness_violation_counterexample:
  "flush_result duplicate_number_day = Some IntegrityError
   \<and> create_order duplicate_number_day shop clerk two_shirts_json =
       ((500, ErrorMsg ''Failed to create order''), new_session shop)
   \<and> fst (fst (create_order duplicate_number_day shop clerk two_shirts_json)) \<noteq> 409"
  by code_simp

text \<open>
  C7, amended. When inserting the new order raises a uniqueness violation, order creation
  treats it as any other exception: the unit of work is rolled back and the generic
  failure is reported at once, 500 \<open>Failed to create order\<close> by the API and the flash
  message \<open>Error creating order.\<close> by the POS view. No run of the API view answers 409:
  its status is always 201, 400 or 500.
\<close>

theorem uniqueness_violation_generic_failure:
  assumes "flush_result e = Some IntegrityError"
  shows "(order_schema_load json = Some data \<longrightarrow> d_items data = Some (i # its) \<longrightarrow>
            create_order e st cu json =
              ((500, ErrorMsg ''Failed to create order''), new_session st))
       \<and> (csrf_valid form \<longrightarrow> f_discount_amount form \<noteq> Malformed \<longrightarrow>
          new_order_cart st 0 (f_product_ids form) (f_quantities form) [] 0 = Inr (cart, tot) \<longrightarrow>
          f_product_ids form \<noteq> [] \<longrightarrow>
            new_order e st cu form =
              ((FlashText ''Error creating order.'', ''danger'', ''pos.new_order''), new_session st))
       \<and> fst (fst (create_order e' st cu json)) \<in> {201, 400, 500}"
proof (intro conjI impI)
  assume "order_schema_load json = Some data" "d_items data = Some (i # its)"
  then show "create_order e st cu json =
              ((500, ErrorMsg ''Failed to create order''), new_session st)"
    using assms
    by (simp add: create_order_def create_order_try_def Let_def rollback_def new_session_def)
next
  assume "csrf_valid form" "f_discount_amount form \<noteq> Malformed"
    "new_order_cart st 0 (f_product_ids form) (f_quantities form) [] 0 = Inr (cart, tot)"
    "f_product_ids form \<noteq> []"
  then show "new_order e st cu form =
              ((FlashText ''Error creating order.'', ''danger'', ''pos.new_order''), new_session st)"
    using assms
    by (cases "f_discount_amount form")
       (simp_all add: new_order_def new_order_try_def Let_def rollback_def new_session_def)
next
  show "fst (fst (create_order e' st cu json)) \<in> {201, 400, 500}"
    using create_order_committed [of e' st cu json "fst (create_order e' st cu json)"
        "snd (create_order e' st cu json)"] by simp
qed

text \<open>A concrete run of each view against the refused insert.\<close>

theorem uniqueness_violation_generic_failure_witness:
  "flush_result duplicate_number_day = Some IntegrityError \<and>
   create_order duplicate_number_day shop clerk two_shirts_json =
     ((500, ErrorMsg ''Failed to create order''), new_session shop) \<and>
   new_order duplicate_number_day shop clerk two_shirts_form =
     ((FlashText ''Error creating order.'', ''danger'', ''pos.new_order''), new_session shop)"
proof -
  have fl: "flush_result duplicate_number_day = Some IntegrityError"
    by (simp add: duplicate_number_day_def)
  obtain data where d: "order_schema_load two_shirts_json = Some data"
      "d_items data = Some [\<lparr>it_product_id = 1, it_quantity = 2, it_unit_price = Some 15\<rparr>]"
    by (simp add: order_schema_load_def two_shirts_json_def item_schema_load_def)
  have f: "csrf_valid two_shirts_form" "f_discount_amount two_shirts_form \<noteq> Malformed"
    "f_product_ids two_shirts_form \<noteq> []"
    by (simp_all add: two_shirts_form_def)
  have "\<exists>cart tot. new_order_cart shop 0 (f_product_ids two_shirts_form)
          (f_quantities two_shirts_form) [] 0 = Inr (cart, tot)"
    by (simp add: two_shirts_form_def shop_def Product_query_get_def Let_def)
  then obtain cart tot where c: "new_order_cart shop 0 (f_product_ids two_shirts_form)
          (f_quantities two_shirts_form) [] 0 = Inr (cart, tot)" by blast
  note inst = uniqueness_violation_generic_failure [OF fl]
  from inst [THEN conjunct1, rule_format, OF d]
       inst [THEN conjunct2, THEN conjunct1, rule_format, OF f(1,2) c f(3)] fl
  show ?thesis by simp
qed


subsection \<open>Order status transitions\<close>

text \<open>
  C6, as stated, fails: both views accept the request to set a completed order back to
  \<open>pending\<close>, and the committed order is then pending, which is neither forward nor a
  cancellation.
\<close>

theorem status_moves_backwards:
  "map o_status (orders finished_shop) = [''completed'']
   \<and> map o_status
        (orders (committed (snd (api_update_order_status next_day finished_shop 1 (Some ''pending'')))))
       = [''pending'']
   \<and> map o_status
        (orders (committed (snd (pos_update_order_status next_day finished_shop 1 True (Some ''pending'')))))
       = [''pending'']
   \<and> \<not> forward_or_cancelled ''completed'' ''pending''"
  by code_simp

lemma Order_query_get_Some: "Order_query_get w oid = Some ord \<Longrightarrow> o_id ord = oid \<and> ord \<in> set (orders w)"
  by (auto simp: Order_query_get_def find_Some_iff)

lemma Order_query_get_update:
  assumes "Order_query_get w oid = Some ord" "o_id ord' = oid"
  shows "Order_query_get (update_order ord' w) oid = Some ord'"
proof -
  have "find (\<lambda>x. o_id x = oid) (map (\<lambda>x. if o_id x = oid then ord' else x) xs) = Some ord'"
    if "find (\<lambda>x. o_id x = oid) xs = Some ord" for xs
    using that assms(2) by (induction xs) (auto split: if_splits)
  then show ?thesis using assms by (simp add: Order_query_get_def update_order_def)
qed

text \<open>
  C6, amended. For every stored order and every status-update request: when the request
  names one of \<open>pending\<close>, \<open>in_progress\<close>, \<open>ready\<close>, \<open>completed\<close>, \<open>cancelled\<close> and the
  commit succeeds, the order's status becomes the requested one, whatever its current
  status (no order between the statuses is enforced); a request naming any other status is
  rejected and changes nothing.
\<close>

theorem status_update_sets_requested:
  assumes "Order_query_get st oid = Some ord"
  shows "(new_status \<in> {''pending'', ''in_progress'', ''ready'', ''completed'', ''cancelled''} \<longrightarrow>
          commit_result e = None \<longrightarrow>
            Order_query_get (committed (snd (api_update_order_status e st oid (Some new_status)))) oid
              = Some (set_order_status (utcnow e) new_status ord) \<and>
            Order_query_get (committed (snd (pos_update_order_status e st oid True (Some new_status)))) oid
              = Some (set_order_status (utcnow e) new_status ord) \<and>
            o_status (set_order_status (utcnow e) new_status ord) = new_status)
       \<and> (new_status \<notin> {''pending'', ''in_progress'', ''ready'', ''completed'', ''cancelled''} \<longrightarrow>
            snd (api_update_order_status e st oid (Some new_status)) = new_session st \<and>
            fst (api_update_order_status e st oid (Some new_status)) = (400, ErrorMsg ''Invalid status'') \<and>
            pos_update_order_status e st oid True (Some new_status)
              = (Flashed ''Invalid status.'' ''danger'' ''pos.orders'', new_session st))"
proof (intro conjI impI)
  assume v: "new_status \<in> {''pending'', ''in_progress'', ''ready'', ''completed'', ''cancelled''}"
    and c: "commit_result e = None"
  have oid: "o_id (set_order_status (utcnow e) new_status ord) = oid"
    using Order_query_get_Some [OF assms] by (simp add: set_order_status_def Let_def)
  have g: "Order_query_get (update_order (set_order_status (utcnow e) new_status ord) st) oid
             = Some (set_order_status (utcnow e) new_status ord)"
    by (rule Order_query_get_update [OF assms oid])
  show "Order_query_get (committed (snd (api_update_order_status e st oid (Some new_status)))) oid
              = Some (set_order_status (utcnow e) new_status ord)"
    using v c assms g
    by (simp add: api_update_order_status_def Let_def new_session_def commit_def)
  show "Order_query_get (committed (snd (pos_update_order_status e st oid True (Some new_status)))) oid
              = Some (set_order_status (utcnow e) new_status ord)"
    using v c assms g
    by (simp add: pos_update_order_status_def Let_def new_session_def commit_def)
  show "o_status (set_order_status (utcnow e) new_status ord) = new_status"
    by (simp add: set_order_status_def Let_def)
next
  assume v: "new_status \<notin> {''pending'', ''in_progress'', ''ready'', ''completed'', ''cancelled''}"
  show "snd (api_update_order_status e st oid (Some new_status)) = new_session st"
    using v assms by (simp add: api_update_order_status_def Let_def new_session_def)
  show "fst (api_update_order_status e st oid (Some new_status)) = (400, ErrorMsg ''Invalid status'')"
    using v assms by (simp add: api_update_order_status_def Let_def new_session_def)
  show "pos_update_order_status e st oid True (Some new_status)
              = (Flashed ''Invalid status.'' ''danger'' ''pos.orders'', new_session st)"
    using v assms by (simp add: pos_update_order_status_def Let_def new_session_def)
qed

text \<open>
  A concrete run: the completed order is set to \<open>pending\<close>; the status \<open>washed\<close> is
  refused.
\<close>

theorem status_update_sets_requested_witness:
  "(\<exists>ord. Order_query_get finished_shop 1 = Some ord \<and> o_status ord = ''completed'' \<and>
      commit_result next_day = None \<and>
      Order_query_get
        (committed (snd (api_update_order_status next_day finished_shop 1 (Some ''pending'')))) 1
        = Some (set_order_status (utcnow next_day) ''pending'' ord) \<and>
      o_status (set_order_status (utcnow next_day) ''pending'' ord) = ''pending'') \<and>
   pos_update_order_status next_day finished_shop 1 True (Some ''washed'')
     = (Flashed ''Invalid status.'' ''danger'' ''pos.orders'', new_session finished_shop)"
proof -
  obtain ord where g: "Order_query_get finished_shop 1 = Some ord" and c: "o_status ord = ''completed''"
    by (simp add: Order_query_get_def finished_shop_def)
  have cr: "commit_result next_day = None" by (simp add: next_day_def)
  have v: "''pending'' \<in> {''pending'', ''in_progress'', ''ready'', ''completed'', ''cancelled''}"
    by simp
  have nv: "''washed'' \<notin> {''pending'', ''in_progress'', ''ready'', ''completed'', ''cancelled''}"
    by simp
  from status_update_sets_requested [OF g, of "''pending''" next_day, THEN conjunct1, rule_format, OF v cr]
       status_update_sets_requested [OF g, of "''washed''" next_day, THEN conjunct2, rule_format, OF nv]
       g c cr
  show ?thesis by blast
qed


subsection \<open>Backup retention\<close>








subsection \<open>The weekly reporting period\<close>

text \<open>
  C9, as stated, fails for the spreadsheet: on Wednesday 2024-01-10 the weekly report covers
  Monday 2024-01-08 to Sunday 2024-01-14 and counts no income, while the weekly export
  includes the entry of Friday 2024-01-05, which is outside that week.
\<close>

theorem weekly_export_is_trailing_window:
  "date_of wednesday_noon = 19732 \<and> weekday (date_of wednesday_noon) = 2
   \<and> week_start (weekly_report wednesday_noon friday_sale_shop) = 19730
   \<and> week_end (weekly_report wednesday_noon friday_sale_shop) = 19736
   \<and> w_income (weekly_report wednesday_noon friday_sale_shop) = 0
   \<and> x_total_income (export_to_excel ''weekly'' wednesday_noon friday_sale_shop) = 100
   \<and> \<not> list_all (\<lambda>t. in_current_week wednesday_noon (t_created_at t))
          (x_transactions (export_to_excel ''weekly'' wednesday_noon friday_sale_shop))"
  by code_simp

lemma sum_list_insort_key:
  "sum_list (map f (insort_key k x xs)) = f x + sum_list (map f xs)"
  for f :: "'a \<Rightarrow> rat"
  by (induction xs) (auto simp: algebra_simps)

lemma sum_list_sort_key:
  "sum_list (map f (sort_key k xs)) = sum_list (map f xs)"
  for f :: "'a \<Rightarrow> rat"
  by (induction xs) (simp_all add: sum_list_insort_key)

lemma filter_sort_key: "filter P (sort_key k xs) = sort_key k (filter P xs)"
  by (induction xs) (simp_all add: filter_insort_triv filter_insort)
lemma week_start_is_monday: "weekday (d - weekday d) = 0"
  unfolding weekday_def by presburger

lemma week_contains_today: "d - weekday d \<le> d \<and> d \<le> d - weekday d + 6"
  unfolding weekday_def by presburger

text \<open>
  C9, amended. The structured weekly report aggregates over the Monday-to-Sunday week that
  contains today: its window starts on a Monday, ends six days later and contains today,
  and its income, expense and order count range over the entries dated within it. The
  exported spreadsheet for the period \<open>weekly\<close> aggregates over the trailing seven days:
  its rows and totals range over the entries created at or after \<open>now - 7 days\<close>.
\<close>

theorem weekly_report_and_export_windows:
  "weekday (week_start (weekly_report now st)) = 0
   \<and> week_end (weekly_report now st) = week_start (weekly_report now st) + 6
   \<and> week_start (weekly_report now st) \<le> date_of now
   \<and> date_of now \<le> week_end (weekly_report now st)
   \<and> w_income (weekly_report now st) =
       sum_list (map t_amount
         (filter (\<lambda>t. t_type t = ''income'' \<and> in_current_week now (t_created_at t))
            (transactions st)))
   \<and> w_expense (weekly_report now st) =
       sum_list (map t_amount
         (filter (\<lambda>t. t_type t = ''expense'' \<and> in_current_week now (t_created_at t))
            (transactions st)))
   \<and> w_total_orders (weekly_report now st) =
       length (filter (\<lambda>ord. in_current_week now (o_created_at ord)) (orders st))
   \<and> x_start_date (export_to_excel ''weekly'' now st) = now - timedelta_days 7
   \<and> set (x_transactions (export_to_excel ''weekly'' now st)) =
       {t \<in> set (transactions st). now - timedelta_days 7 \<le> t_created_at t}
   \<and> x_total_income (export_to_excel ''weekly'' now st) =
       sum_list (map t_amount
         (filter (\<lambda>t. t_type t = ''income'' \<and> now - timedelta_days 7 \<le> t_created_at t)
            (transactions st)))
   \<and> x_total_expense (export_to_excel ''weekly'' now st) =
       sum_list (map t_amount
         (filter (\<lambda>t. t_type t = ''expense'' \<and> now - timedelta_days 7 \<le> t_created_at t)
            (transactions st)))
   \<and> x_total_orders (export_to_excel ''weekly'' now st) =
       length (filter (\<lambda>ord. now - timedelta_days 7 \<le> o_created_at ord) (orders st))"
proof -
  have sd: "export_start_date ''weekly'' now = now - timedelta_days 7"
    by (simp add: export_start_date_def)
  have swap: "(\<lambda>x. now - timedelta_days 7 \<le> t_created_at x \<and> t_type x = ty) =
              (\<lambda>t. t_type t = ty \<and> now - timedelta_days 7 \<le> t_created_at t)" for ty
    by auto
  have r1: "weekday (week_start (weekly_report now st)) = 0"
    by (simp add: weekly_report_def Let_def week_start_is_monday)
  have r2: "week_end (weekly_report now st) = week_start (weekly_report now st) + 6"
    by (simp add: weekly_report_def Let_def)
  have r3: "week_start (weekly_report now st) \<le> date_of now"
       "date_of now \<le> week_end (weekly_report now st)"
    using week_contains_today [of "date_of now"] by (simp_all add: weekly_report_def Let_def)
  have r4: "w_income (weekly_report now st) =
       sum_list (map t_amount
         (filter (\<lambda>t. t_type t = ''income'' \<and> in_current_week now (t_created_at t))
            (transactions st)))"
    by (simp add: weekly_report_def Let_def in_current_week_def)
  have r5: "w_expense (weekly_report now st) =
       sum_list (map t_amount
         (filter (\<lambda>t. t_type t = ''expense'' \<and> in_current_week now (t_created_at t))
            (transactions st)))"
    by (simp add: weekly_report_def Let_def in_current_week_def)
  have r6: "w_total_orders (weekly_report now st) =
       length (filter (\<lambda>ord. in_current_week now (o_created_at ord)) (orders st))"
    by (simp add: weekly_report_def Let_def in_current_week_def)
  have x1: "x_start_date (export_to_excel ''weekly'' now st) = now - timedelta_days 7"
    by (simp add: export_to_excel_def Let_def sd)
  have x2: "set (x_transactions (export_to_excel ''weekly'' now st)) =
       {t \<in> set (transactions st). now - timedelta_days 7 \<le> t_created_at t}"
    by (auto simp: export_to_excel_def Let_def sd)
  have x3: "x_total_income (export_to_excel ''weekly'' now st) =
       sum_list (map t_amount
         (filter (\<lambda>t. t_type t = ''income'' \<and> now - timedelta_days 7 \<le> t_created_at t)
            (transactions st)))"
    by (simp add: export_to_excel_def Let_def sd filter_sort_key sum_list_sort_key swap)
  have x4: "x_total_expense (export_to_excel ''weekly'' now st) =
       sum_list (map t_amount
         (filter (\<lambda>t. t_type t = ''expense'' \<and> now - timedelta_days 7 \<le> t_created_at t)
            (transactions st)))"
    by (simp add: export_to_excel_def Let_def sd filter_sort_key sum_list_sort_key swap)
  have x5: "x_total_orders (export_to_excel ''weekly'' now st) =
       length (filter (\<lambda>ord. now - timedelta_days 7 \<le> o_created_at ord) (orders st))"
    by (simp add: export_to_excel_def Let_def sd)
  from r1 r2 r3 r4 r5 r6 x1 x2 x3 x4 x5 show ?thesis by (intro conjI)
qed


subsection \<open>Token verification\<close>

text \<open>
  What \<open>verify_jwt_token\<close> accepts: exactly the tokens signed under the configured secret
  with HS256, not expired, of declared type \<open>access\<close>, whose \<open>user_id\<close> names a stored,
  active user. Every other token is answered with \<open>None\<close>, except a validly signed,
  unexpired one whose payload lacks \<open>type\<close> or \<open>user_id\<close>: there the function raises
  \<open>KeyError\<close>. An access token of the 24-hour configuration is accepted until one second
  before the 24 hours are over and refused from 24 hours on.
\<close>

lemma jwt_decode_Inr:
  "jwt_decode now tok key algs = Inr pl \<longleftrightarrow>
     (\<exists>alg. tok = Signed alg pl key \<and> alg \<in> set algs \<and> exp_ok now pl)"
  by (cases tok)
     (auto simp: jwt_decode_def exp_ok_def split: option.splits claim_value.splits)

lemma verify_jwt_token_accepts_iff:
  "verify_jwt_token cfg users now tok = Inr (Some u) \<longleftrightarrow>
     (\<exists>pl uid. tok = Signed ''HS256'' pl (JWT_SECRET_KEY cfg) \<and> exp_ok now pl \<and>
        map_of pl ''type'' = Some (StrClaim ''access'') \<and>
        map_of pl ''user_id'' = Some uid \<and>
        User_query_get users uid = Some u \<and> is_active u)"
proof
  assume a: "verify_jwt_token cfg users now tok = Inr (Some u)"
  then obtain pl where d: "jwt_decode now tok (JWT_SECRET_KEY cfg) [''HS256''] = Inr pl"
    by (auto simp: verify_jwt_token_def split: sum.splits jwt_error.splits)
  from a d obtain uid where
    "map_of pl ''type'' = Some (StrClaim ''access'')" "map_of pl ''user_id'' = Some uid"
    "User_query_get users uid = Some u" "is_active u"
    by (auto simp: verify_jwt_token_def split: option.splits if_splits)
  moreover from d have "tok = Signed ''HS256'' pl (JWT_SECRET_KEY cfg)" "exp_ok now pl"
    by (auto simp: jwt_decode_Inr)
  ultimately show "\<exists>pl uid. tok = Signed ''HS256'' pl (JWT_SECRET_KEY cfg) \<and> exp_ok now pl \<and>
        map_of pl ''type'' = Some (StrClaim ''access'') \<and>
        map_of pl ''user_id'' = Some uid \<and>
        User_query_get users uid = Some u \<and> is_active u"
    by blast
next
  assume "\<exists>pl uid. tok = Signed ''HS256'' pl (JWT_SECRET_KEY cfg) \<and> exp_ok now pl \<and>
        map_of pl ''type'' = Some (StrClaim ''access'') \<and>
        map_of pl ''user_id'' = Some uid \<and>
        User_query_get users uid = Some u \<and> is_active u"
  then obtain pl uid where
    t: "tok = Signed ''HS256'' pl (JWT_SECRET_KEY cfg)" "exp_ok now pl"
       "map_of pl ''type'' = Some (StrClaim ''access'')" "map_of pl ''user_id'' = Some uid"
       "User_query_get users uid = Some u" "is_active u"
    by blast
  have "jwt_decode now tok (JWT_SECRET_KEY cfg) [''HS256''] = Inr pl"
    using t(1,2) by (simp add: jwt_decode_Inr)
  then show "verify_jwt_token cfg users now tok = Inr (Some u)"
    using t(3-6) by (simp add: verify_jwt_token_def)
qed

lemma verify_jwt_token_other_cases:
  "verify_jwt_token cfg users now tok = Inr None \<or>
   (\<exists>u. verify_jwt_token cfg users now tok = Inr (Some u)) \<or>
   (verify_jwt_token cfg users now tok = Inl KeyError \<and>
    (\<exists>pl. tok = Signed ''HS256'' pl (JWT_SECRET_KEY cfg) \<and> exp_ok now pl \<and>
       (map_of pl ''type'' = None \<or> map_of pl ''user_id'' = None)))"
proof (cases "jwt_decode now tok (JWT_SECRET_KEY cfg) [''HS256'']")
  case (Inl err)
  then show ?thesis by (cases err) (simp_all add: verify_jwt_token_def)
next
  case (Inr pl)
  then have "tok = Signed ''HS256'' pl (JWT_SECRET_KEY cfg)" "exp_ok now pl"
    by (auto simp: jwt_decode_Inr)
  with Inr show ?thesis
    by (auto simp: verify_jwt_token_def split: option.splits)
qed

lemma whole_seconds:
  "x - 1000000 < x div 1000000 * 1000000 \<and> x div 1000000 * 1000000 \<le> (x::int)"
proof -
  have "x div 1000000 * 1000000 = x - x mod 1000000"
    by (simp add: minus_mod_eq_div_mult)
  moreover have "0 \<le> x mod 1000000" "x mod 1000000 < 1000000" by simp_all
  ultimately show ?thesis by linarith
qed

lemma issued_token_window:
  assumes "User_query_get users (IntClaim (u_id u)) = Some u" "is_active u"
  shows "(now < issued + JWT_ACCESS_TOKEN_EXPIRES cfg - 1000000 \<longrightarrow>
            verify_jwt_token cfg users now (generate_jwt_token cfg issued u) = Inr (Some u))
       \<and> (issued + JWT_ACCESS_TOKEN_EXPIRES cfg \<le> now \<longrightarrow>
            verify_jwt_token cfg users now (generate_jwt_token cfg issued u) = Inr None)
       \<and> verify_jwt_token cfg users now (generate_refresh_token cfg issued u) = Inr None"
proof (intro conjI impI)
  assume "now < issued + JWT_ACCESS_TOKEN_EXPIRES cfg - 1000000"
  then have "now < (issued + JWT_ACCESS_TOKEN_EXPIRES cfg) div 1000000 * 1000000"
    using whole_seconds [of "issued + JWT_ACCESS_TOKEN_EXPIRES cfg"] by linarith
  then show "verify_jwt_token cfg users now (generate_jwt_token cfg issued u) = Inr (Some u)"
    using assms
    by (simp add: verify_jwt_token_def generate_jwt_token_def jwt_encode_def jwt_decode_def)
next
  assume "issued + JWT_ACCESS_TOKEN_EXPIRES cfg \<le> now"
  then have "(issued + JWT_ACCESS_TOKEN_EXPIRES cfg) div 1000000 * 1000000 \<le> now"
    using whole_seconds [of "issued + JWT_ACCESS_TOKEN_EXPIRES cfg"] by linarith
  then show "verify_jwt_token cfg users now (generate_jwt_token cfg issued u) = Inr None"
    by (simp add: verify_jwt_token_def generate_jwt_token_def jwt_encode_def jwt_decode_def)
next
  show "verify_jwt_token cfg users now (generate_refresh_token cfg issued u) = Inr None"
    by (simp add: verify_jwt_token_def generate_refresh_token_def jwt_encode_def jwt_decode_def)
qed

text \<open>
  C8 (the code departs from it on a payload without \<open>type\<close>). The claim has
  \<open>verify_jwt_token\<close> return nothing for every token it does not accept. A token that
  is signed with the configured secret and not expired, but whose payload has no \<open>type\<close>
  claim, passes \<open>jwt.decode\<close>; the subscript \<open>payload['type']\<close> then raises \<open>KeyError\<close>,
  which neither \<open>except\<close> clause catches, and the exception leaves \<open>jwt_required\<close> as
  well instead of the 401 answer.
\<close>

theorem verify_jwt_token_raises_key_error:
  "jwt_decode (utcnow fine_day) typeless_token (JWT_SECRET_KEY (Config dev_secret)) [''HS256'']
     = Inr [(''user_id'', IntClaim 1), (''exp'', IntClaim 1700086400)]
   \<and> verify_jwt_token (Config dev_secret) [clerk] (utcnow fine_day) typeless_token = Inl KeyError
   \<and> verify_jwt_token (Config dev_secret) [clerk] (utcnow fine_day) typeless_token \<noteq> Inr None
   \<and> jwt_required (Config dev_secret) [clerk] (utcnow fine_day) (Some typeless_token) username
       = Inl KeyError"
  by code_simp

subsection \<open>Permissions\<close>

text \<open>
  C10. For every user, whatever the role, and every permission string,
  \<open>User.has_permission\<close> returns True; consequently the permission-checking decorator
  never answers 403: an authenticated user always reaches the wrapped view, and an
  anonymous one gets 401.
\<close>

theorem has_permission_always_true:
  "User_has_permission u p
   \<and> has_permission p (Some u) f = Ran f
   \<and> (\<forall>cu msg. has_permission p cu f \<noteq> Status403 msg)"
  by (simp add: User_has_permission_def has_permission_def split: option.split)

end
